theory Spec2Isabelle
  imports Complex_Main "HOL-Library.AList"
begin

section \<open>Exceptions\<close>

text \<open>
  The exception classes that the sources raise or name, with the part of Python's
  built-in hierarchy that relates them. An exception value carries its class and its
  message; the messages of the sources are f-strings, abbreviated here to their fixed part.
\<close>

datatype exc_class =
  Exception | RuntimeError | ValueError | TypeError | NameError | AttributeError
  | OverflowError | OSError | FileNotFoundError | PermissionError

datatype exn = Exn (exn_class: exc_class) (exn_msg: string)

fun issubclass :: "exc_class \<Rightarrow> exc_class \<Rightarrow> bool" where
  "issubclass c Exception = True"
| "issubclass FileNotFoundError OSError = True"
| "issubclass PermissionError OSError = True"
| "issubclass c d = (c = d)"

text \<open>\<^verbatim>\<open>except exceptions as e\<close> with a tuple of classes.\<close>

definition caught :: "exc_class list \<Rightarrow> exn \<Rightarrow> bool" where
  "caught exceptions e = (\<exists>c \<in> set exceptions. issubclass (exn_class e) c)"

section \<open>utils/retries.py\<close>

text \<open>
  The wrapped operation is a function of the world it acts on, returning the raised
  exception (\<open>Inl\<close>) or its value (\<open>Inr\<close>) and the world it leaves. A run of the
  wrapper yields the outcome, the world, the number of times the operation was invoked
  and the delays that \<^verbatim>\<open>time.sleep\<close> slept, in order.
\<close>

text \<open>
  The values that \<^verbatim>\<open>random.uniform(0, 1)\<close> returns lie between 0 and 1. They are the
  parameter \<open>jitter\<close> of a run, indexed by \<^verbatim>\<open>retry_count\<close>.
\<close>

typedef unit01 = "{x::real. 0 \<le> x \<and> x \<le> 1}"
  by (rule exI[of _ 0]) simp

definition uniform :: "(nat \<Rightarrow> unit01) \<Rightarrow> nat \<Rightarrow> real" where
  "uniform jitter k = Rep_unit01 (jitter k)"

text \<open>
  \<^verbatim>\<open>time.sleep(secs)\<close> raises instead of sleeping when the nanoseconds of the delay do
  not fit a signed 64-bit integer (\<^verbatim>\<open>OverflowError\<close>) or when the delay is negative
  (\<^verbatim>\<open>ValueError\<close>). Delays are real numbers here: the rounding of floats is not
  modelled, and neither is the clock of the operating system, which refuses a wake-up time
  beyond its own range (\<^verbatim>\<open>OSError\<close>) and so lowers the upper limit by the uptime of
  the machine.
\<close>

definition time_sleep :: "real \<Rightarrow> exn option" where
  "time_sleep secs =
     (if secs * 10 ^ 9 < - (2 ^ 63) \<or> 2 ^ 63 \<le> secs * 10 ^ 9
      then Some (Exn OverflowError ''timestamp out of range for platform time_t'')
      else if secs < 0 then Some (Exn ValueError ''sleep length must be non-negative'')
      else None)"

record ('a, 'w) retry_run =
  outcome :: "exn + 'a"
  final :: 'w
  attempts :: nat
  delays :: "real list"

text \<open>
  The defaults of the decorator's parameters: \<^verbatim>\<open>MAX_RETRIES\<close> and
  \<^verbatim>\<open>RETRY_BACKOFF_FACTOR\<close> of config.py, and \<^verbatim>\<open>(Exception,)\<close>.
\<close>

definition MAX_RETRIES :: int where
  "MAX_RETRIES = 3"

definition RETRY_BACKOFF_FACTOR :: real where
  "RETRY_BACKOFF_FACTOR = 2"

definition default_exceptions :: "exc_class list" where
  "default_exceptions = [Exception]"

text \<open>The statements after the \<^verbatim>\<open>while\<close> loop.\<close>

definition after_loop :: "exn option \<Rightarrow> nat \<Rightarrow> real list \<Rightarrow> 'w \<Rightarrow> ('a, 'w) retry_run" where
  "after_loop last_exception n ds w =
     (case last_exception of
        Some e \<Rightarrow> \<lparr>outcome = Inl e, final = w, attempts = n, delays = ds\<rparr>
      | None \<Rightarrow> \<lparr>outcome = Inl (Exn RuntimeError ''Unexpected error in retry mechanism''),
                 final = w, attempts = n, delays = ds\<rparr>)"

text \<open>
  The \<^verbatim>\<open>while\<close> loop. The two library calls of its \<^verbatim>\<open>except\<close> block are parameters
  of a run: \<open>jitter\<close> for \<^verbatim>\<open>random.uniform\<close> and \<open>sleep\<close> for \<^verbatim>\<open>time.sleep\<close>. An
  exception that \<^verbatim>\<open>time.sleep\<close> raises is raised inside the \<^verbatim>\<open>except\<close> block, so it
  leaves the wrapper at once, in place of the operation's error.
\<close>

function retry_loop ::
  "int \<Rightarrow> real \<Rightarrow> exc_class list \<Rightarrow> (nat \<Rightarrow> unit01) \<Rightarrow> (real \<Rightarrow> exn option)
     \<Rightarrow> ('w \<Rightarrow> (exn + 'a) \<times> 'w)
     \<Rightarrow> int \<Rightarrow> exn option \<Rightarrow> nat \<Rightarrow> real list \<Rightarrow> 'w \<Rightarrow> ('a, 'w) retry_run"
where
  "retry_loop max_retries backoff_factor exceptions jitter sleep func
       retry_count last_exception n ds w =
     (if retry_count \<le> max_retries then
        (case func w of
           (Inr v, w') \<Rightarrow> \<lparr>outcome = Inr v, final = w', attempts = Suc n, delays = ds\<rparr>
         | (Inl e, w') \<Rightarrow>
             if \<not> caught exceptions e then
               \<lparr>outcome = Inl e, final = w', attempts = Suc n, delays = ds\<rparr>
             else if retry_count + 1 > max_retries then
               after_loop (Some e) (Suc n) ds w'
             else
               (let delay = backoff_factor ^ nat (retry_count + 1)
                              + uniform jitter (nat (retry_count + 1))
                in case sleep delay of
                     Some sleep_error \<Rightarrow>
                       \<lparr>outcome = Inl sleep_error, final = w', attempts = Suc n, delays = ds\<rparr>
                   | None \<Rightarrow>
                       retry_loop max_retries backoff_factor exceptions jitter sleep func
                         (retry_count + 1) (Some e) (Suc n) (ds @ [delay]) w'))
      else after_loop last_exception n ds w)"
  by pat_completeness auto
termination
  by (relation "measure (\<lambda>(m, b, x, j, s, f, rc, l, n, ds, w). nat (m + 1 - rc))") auto

definition with_retry ::
  "int \<Rightarrow> real \<Rightarrow> exc_class list \<Rightarrow> (nat \<Rightarrow> unit01) \<Rightarrow> (real \<Rightarrow> exn option)
     \<Rightarrow> ('w \<Rightarrow> (exn + 'a) \<times> 'w) \<Rightarrow> 'w \<Rightarrow> ('a, 'w) retry_run" where
  "with_retry max_retries backoff_factor exceptions jitter sleep func w =
     retry_loop max_retries backoff_factor exceptions jitter sleep func 0 None 0 [] w"



section \<open>Strings and POSIX paths\<close>

text \<open>
  Python's \<^verbatim>\<open>str\<close> methods and the functions of \<^verbatim>\<open>os.path\<close> (posixpath) that the
  sources call, written as the library computes them.
\<close>

text \<open>\<^verbatim>\<open>s.split("/")\<close>\<close>

fun split_slash :: "string \<Rightarrow> string list" where
  "split_slash [] = [[]]"
| "split_slash (c # cs) =
     (if c = CHR ''/'' then [] # split_slash cs
      else (case split_slash cs of
              [] \<Rightarrow> [[c]]
            | x # xs \<Rightarrow> (c # x) # xs))"

text \<open>\<^verbatim>\<open>"/".join(comps)\<close>\<close>

fun join_slash :: "string list \<Rightarrow> string" where
  "join_slash [] = []"
| "join_slash [x] = x"
| "join_slash (x # y # ys) = x @ ''/'' @ join_slash (y # ys)"

definition startswith :: "string \<Rightarrow> string \<Rightarrow> bool" where
  "startswith s p = (take (length p) s = p)"

definition endswith_slash :: "string \<Rightarrow> bool" where
  "endswith_slash s = (s \<noteq> [] \<and> last s = CHR ''/'')"

text \<open>\<^verbatim>\<open>s.replace("\\", "/")\<close>\<close>

definition replace_backslash :: "string \<Rightarrow> string" where
  "replace_backslash s = map (\<lambda>c. if c = CHR 0x5C then CHR ''/'' else c) s"

text \<open>\<^verbatim>\<open>os.path.basename\<close>: what follows the last slash.\<close>

definition basename :: "string \<Rightarrow> string" where
  "basename p = rev (takeWhile (\<lambda>c. c \<noteq> CHR ''/'') (rev p))"

text \<open>
  \<^verbatim>\<open>os.path.dirname\<close>: the head up to and including the last slash, with its trailing
  slashes stripped unless it consists of slashes only.
\<close>

definition dirname :: "string \<Rightarrow> string" where
  "dirname p =
     (let head = rev (dropWhile (\<lambda>c. c \<noteq> CHR ''/'') (rev p))
      in if head \<noteq> [] \<and> head \<noteq> replicate (length head) (CHR ''/'')
         then rev (dropWhile (\<lambda>c. c = CHR ''/'') (rev head))
         else head)"

text \<open>\<^verbatim>\<open>os.path.join(a, b)\<close> for two arguments.\<close>

definition path_join :: "string \<Rightarrow> string \<Rightarrow> string" where
  "path_join a b =
     (if startswith b ''/'' then b
      else if a = [] \<or> endswith_slash a then a @ b
      else a @ ''/'' @ b)"

text \<open>The loop of \<^verbatim>\<open>os.path.normpath\<close> over the components.\<close>

fun norm_comps :: "nat \<Rightarrow> string list \<Rightarrow> string list \<Rightarrow> string list" where
  "norm_comps initial_slashes [] new_comps = new_comps"
| "norm_comps initial_slashes (c # comps) new_comps =
     (if c = [] \<or> c = ''.'' then norm_comps initial_slashes comps new_comps
      else if c \<noteq> ''..'' \<or> (initial_slashes = 0 \<and> new_comps = [])
              \<or> (new_comps \<noteq> [] \<and> last new_comps = ''..'')
        then norm_comps initial_slashes comps (new_comps @ [c])
      else if new_comps \<noteq> [] then norm_comps initial_slashes comps (butlast new_comps)
      else norm_comps initial_slashes comps new_comps)"

definition normpath :: "string \<Rightarrow> string" where
  "normpath path =
     (if path = [] then ''.''
      else
        let initial_slashes =
              (if startswith path ''/'' then
                 (if startswith path ''//'' \<and> \<not> startswith path ''///'' then 2 else 1)
               else (0::nat));
            comps = norm_comps initial_slashes (split_slash path) [];
            joined = join_slash comps;
            res = (if initial_slashes \<noteq> 0
                   then replicate initial_slashes (CHR ''/'') @ joined else joined)
        in if res = [] then ''.'' else res)"

text \<open>
  \<^verbatim>\<open>Path(p).name\<close>: the last component, where empty components and \<^verbatim>\<open>.\<close> do not count.
\<close>

definition path_name :: "string \<Rightarrow> string" where
  "path_name p =
     (case filter (\<lambda>c. c \<noteq> [] \<and> c \<noteq> ''.'') (split_slash p) of
        [] \<Rightarrow> []
      | x # xs \<Rightarrow> last (x # xs))"

section \<open>Plan documents\<close>

text \<open>
  A plan file holds a JSON document; the text that \<^verbatim>\<open>json.dump\<close> writes for it and
  \<^verbatim>\<open>json.load\<close> parses is the standard library's and is not modelled, nor is a file
  that is not valid JSON. \<^verbatim>\<open>json.dump\<close> of a dict with string keys writes an object
  with the entries in the dict's order; \<^verbatim>\<open>json.load\<close> of an object builds the dict by
  assigning the members in order, so that a repeated key keeps its first position and
  its last value. Values that are neither strings nor objects are \<open>JOther\<close>. A Python
  dict is an association list with distinct keys, in insertion order; \<^verbatim>\<open>d[k] = v\<close> is
  \<^const>\<open>AList.update\<close>.
\<close>

datatype json = JString string | JObject "(string \<times> json) list" | JOther

type_synonym plan = "(string \<times> json) list"

definition dict_of_members :: "(string \<times> json) list \<Rightarrow> plan" where
  "dict_of_members kvs = foldl (\<lambda>d (k, v). AList.update k v d) [] kvs"

definition json_dump :: "plan \<Rightarrow> json" where
  "json_dump d = JObject d"

text \<open>
  \<^verbatim>\<open>json.load(f)\<close> followed by \<^verbatim>\<open>.items()\<close> on the result: a document that is not an
  object has no \<^verbatim>\<open>items\<close>.
\<close>

definition json_load_items :: "json \<Rightarrow> exn + plan" where
  "json_load_items doc =
     (case doc of
        JObject kvs \<Rightarrow> Inr (dict_of_members kvs)
      | _ \<Rightarrow> Inl (Exn AttributeError ''object has no attribute items''))"

section \<open>models.py\<close>

text \<open>
  Nodes are Python objects, shared between \<^verbatim>\<open>path_map\<close>, \<^verbatim>\<open>id_map\<close> and the
  \<^verbatim>\<open>children\<close> of their parents, and a folder's \<^verbatim>\<open>children\<close> is updated in place. So
  the maps hold references, and the objects live in a heap.
\<close>

type_synonym ref = nat

datatype node =
  FileNode (node_id: int) (node_size: int)
  | FolderNode (node_id: int) (children: "(string \<times> ref) list")

record IDEntry =
  element :: ref
  full_path :: string
  parent :: "ref option"


section \<open>The world of a run\<close>

text \<open>
  \<open>'d\<close> is the state of the device behind libmtp. The three library functions the
  client calls are parameters: each takes the device state and returns its result code
  and the new device state; \<^verbatim>\<open>LIBMTP_Get_File_To_File\<close> also returns the bytes it wrote
  at the target path (if it wrote any), \<^verbatim>\<open>LIBMTP_Send_File_From_File\<close> the
  \<^verbatim>\<open>item_id\<close> it stored in the file structure. The widths of the ctypes fields are
  not modelled.
\<close>

record lfile =
  lsize :: int
  lread :: "exn + string"

record 'd libmtp =
  LIBMTP_Get_File_To_File :: "'d \<Rightarrow> int \<Rightarrow> string \<Rightarrow> int \<times> string option \<times> 'd"
  LIBMTP_Send_File_From_File :: "'d \<Rightarrow> lfile \<Rightarrow> int \<Rightarrow> string \<Rightarrow> int \<times> int \<times> 'd"
  LIBMTP_Create_Folder :: "'d \<Rightarrow> string \<Rightarrow> int \<Rightarrow> int \<Rightarrow> int \<times> 'd"

text \<open>
  The source directory, as the engine sees it: what \<^verbatim>\<open>source_dir.exists()\<close> gives,
  what \<^verbatim>\<open>os.walk\<close> yields (each root already made relative by
  \<^verbatim>\<open>os.path.relpath\<close>), and what the file system answers for
  \<^verbatim>\<open>source_dir / rel_path\<close>: an error that \<^verbatim>\<open>Path.exists\<close> raises again (\<open>Inl\<close>: any
  \<^verbatim>\<open>OSError\<close> but a missing file, a missing directory, a bad descriptor or a link
  loop; so a directory that may not be searched, or a name that is too long), no file
  (\<open>Inr None\<close>), or the file with its size and what reading it gives.
\<close>

record source =
  src_exists :: "exn + bool"
  src_walk :: "(string \<times> string list \<times> string list) list"
  src_file :: "string \<Rightarrow> exn + lfile option"

text \<open>
  What a run reads and never changes: the library, the random values of the retry
  wrapper, the digest function of \<^verbatim>\<open>calculate_checksum\<close>, the source directory,
  \<^verbatim>\<open>DATA_DIR\<close>, and the most recently modified file of the retry directory as a
  function of the plan files that exist.
\<close>

record 'd env =
  lib :: "'d libmtp"
  jitter :: "nat \<Rightarrow> unit01"
  digest :: "string \<Rightarrow> string"
  src :: source
  data_dir :: string
  latest_retry_plan :: "(string \<rightharpoonup> json) \<Rightarrow> string option"

text \<open>
  The calls of the engine's two entry handlers, recorded when they are entered. The
  sources keep no such record; the world carries it so that the order of the calls can be
  stated, and nothing reads it.
\<close>

datatype call = Call_ensure_directory string | Call_sync_file string

text \<open>
  What a run changes: the client object (\<^verbatim>\<open>device\<close>, \<^verbatim>\<open>path_map\<close>, \<^verbatim>\<open>id_map\<close>
  and the node objects), the files that downloads write on the host, the plan files,
  and the record of handler calls.
\<close>

record 'd world =
  device :: "'d option"
  path_map :: "string \<rightharpoonup> ref"
  id_map :: "int \<rightharpoonup> IDEntry"
  heap :: "ref \<Rightarrow> node"
  next_ref :: ref
  temp_files :: "string \<rightharpoonup> string"
  plan_files :: "string \<rightharpoonup> json"
  calls :: "call list"

definition new_object :: "node \<Rightarrow> 'd world \<Rightarrow> ref \<times> 'd world" where
  "new_object n w =
     (next_ref w, w\<lparr>heap := (heap w)(next_ref w := n), next_ref := Suc (next_ref w)\<rparr>)"

text \<open>\<^verbatim>\<open>folder.children[name] = child\<close> on the object at \<open>r\<close>.\<close>

definition set_child :: "ref \<Rightarrow> string \<Rightarrow> ref \<Rightarrow> 'd world \<Rightarrow> 'd world" where
  "set_child r name child w =
     (case heap w r of
        FolderNode i ch \<Rightarrow> w\<lparr>heap := (heap w)(r := FolderNode i (AList.update name child ch))\<rparr>
      | FileNode i sz \<Rightarrow> w)"

section \<open>mtp_client.py\<close>

definition TEMP_DIR :: string where
  "TEMP_DIR = ''/tmp/mtpsync''"

text \<open>\<^verbatim>\<open>TEMP_DIR / file_name\<close>\<close>

definition temp_join :: "string \<Rightarrow> string" where
  "temp_join file_name =
     (if file_name = [] \<or> file_name = ''.'' then TEMP_DIR else TEMP_DIR @ ''/'' @ file_name)"

text \<open>The bodies of \<^verbatim>\<open>download\<close>, \<^verbatim>\<open>upload\<close> and \<^verbatim>\<open>mkdir\<close>, before decoration.\<close>

definition raw_download ::
  "'d libmtp \<Rightarrow> int \<Rightarrow> string option \<Rightarrow> 'd world \<Rightarrow> (exn + string) \<times> 'd world" where
  "raw_download l file_id target_path w =
     (case device w of
        None \<Rightarrow> (Inl (Exn RuntimeError ''No device connected''), w)
      | Some dv \<Rightarrow>
          (case id_map w file_id of
             None \<Rightarrow> (Inl (Exn ValueError ''File ID not found''), w)
           | Some file_entry \<Rightarrow>
               let target = (case target_path of
                               None \<Rightarrow> temp_join (basename (full_path file_entry))
                             | Some t \<Rightarrow> t);
                   (result, written, dv') = LIBMTP_Get_File_To_File l dv file_id target;
                   w' = w\<lparr>device := Some dv',
                          temp_files := (case written of
                                           None \<Rightarrow> temp_files w
                                         | Some b \<Rightarrow> (temp_files w)(target \<mapsto> b))\<rparr>
               in if result \<noteq> 0 then (Inl (Exn RuntimeError ''Failed to download file''), w')
                  else (Inr target, w')))"

definition raw_upload ::
  "'d libmtp \<Rightarrow> source \<Rightarrow> string \<Rightarrow> int \<Rightarrow> string option \<Rightarrow> 'd world
     \<Rightarrow> (exn + int) \<times> 'd world" where
  "raw_upload l s source_path parent_id filename w =
     (case device w of
        None \<Rightarrow> (Inl (Exn RuntimeError ''No device connected''), w)
      | Some dv \<Rightarrow>
          (case src_file s source_path of
             Inl e \<Rightarrow> (Inl e, w)
           | Inr None \<Rightarrow> (Inl (Exn FileNotFoundError ''Source file not found''), w)
           | Inr (Some lf) \<Rightarrow>
               let fname = (case filename of None \<Rightarrow> path_name source_path | Some f \<Rightarrow> f);
                   (result, item_id, dv') = LIBMTP_Send_File_From_File l dv lf parent_id fname;
                   w' = w\<lparr>device := Some dv'\<rparr>
               in if result \<noteq> 0 then (Inl (Exn RuntimeError ''Failed to upload file''), w')
                  else (Inr item_id, w')))"

definition raw_mkdir ::
  "'d libmtp \<Rightarrow> int \<Rightarrow> string \<Rightarrow> int \<Rightarrow> 'd world \<Rightarrow> (exn + int) \<times> 'd world" where
  "raw_mkdir l parent_id folder_name sid w =
     (case device w of
        None \<Rightarrow> (Inl (Exn RuntimeError ''No device connected''), w)
      | Some dv \<Rightarrow>
          let (result, dv') = LIBMTP_Create_Folder l dv folder_name parent_id sid;
              w' = w\<lparr>device := Some dv'\<rparr>
          in if result \<le> 0 then (Inl (Exn RuntimeError ''Failed to create folder''), w')
             else (Inr result, w'))"

text \<open>
  The three methods as decorated: \<^verbatim>\<open>@with_retry(max_retries=3)\<close>, the other two
  arguments at their defaults.
\<close>

definition download_run ::
  "'d env \<Rightarrow> int \<Rightarrow> string option \<Rightarrow> 'd world \<Rightarrow> (string, 'd world) retry_run" where
  "download_run env file_id target_path =
     with_retry 3 RETRY_BACKOFF_FACTOR default_exceptions (jitter env) time_sleep
       (raw_download (lib env) file_id target_path)"

definition upload_run ::
  "'d env \<Rightarrow> string \<Rightarrow> int \<Rightarrow> string option \<Rightarrow> 'd world \<Rightarrow> (int, 'd world) retry_run" where
  "upload_run env source_path parent_id filename =
     with_retry 3 RETRY_BACKOFF_FACTOR default_exceptions (jitter env) time_sleep
       (raw_upload (lib env) (src env) source_path parent_id filename)"

definition mkdir_run ::
  "'d env \<Rightarrow> int \<Rightarrow> string \<Rightarrow> int \<Rightarrow> 'd world \<Rightarrow> (int, 'd world) retry_run" where
  "mkdir_run env parent_id folder_name sid =
     with_retry 3 RETRY_BACKOFF_FACTOR default_exceptions (jitter env) time_sleep
       (raw_mkdir (lib env) parent_id folder_name sid)"

definition download ::
  "'d env \<Rightarrow> int \<Rightarrow> string option \<Rightarrow> 'd world \<Rightarrow> (exn + string) \<times> 'd world" where
  "download env file_id target_path w =
     (let r = download_run env file_id target_path w in (outcome r, final r))"

definition upload ::
  "'d env \<Rightarrow> string \<Rightarrow> int \<Rightarrow> string option \<Rightarrow> 'd world \<Rightarrow> (exn + int) \<times> 'd world" where
  "upload env source_path parent_id filename w =
     (let r = upload_run env source_path parent_id filename w in (outcome r, final r))"

definition mkdir ::
  "'d env \<Rightarrow> int \<Rightarrow> string \<Rightarrow> int \<Rightarrow> 'd world \<Rightarrow> (exn + int) \<times> 'd world" where
  "mkdir env parent_id folder_name sid w =
     (let r = mkdir_run env parent_id folder_name sid w in (outcome r, final r))"


section \<open>mtpsync/sync.py\<close>

record engine =
  dest_path :: string
  use_checksum :: bool
  storage_id :: int

text \<open>\<^verbatim>\<open>SyncEngine.__init__\<close>: a destination that does not start with a slash gets one.\<close>

definition SyncEngine :: "string \<Rightarrow> bool \<Rightarrow> int \<Rightarrow> engine" where
  "SyncEngine dest checksum sid =
     \<lparr>dest_path = (if \<not> startswith dest ''/'' then ''/'' @ dest else dest),
      use_checksum = checksum, storage_id = sid\<rparr>"

definition DEFAULT_EXECUTION_PLAN :: "'d env \<Rightarrow> string" where
  "DEFAULT_EXECUTION_PLAN env = data_dir env @ ''/execution_plan.json''"

text \<open>\<^verbatim>\<open>DATA_DIR / ".execution_retry" / f"{uuid.uuid4().hex}.json"\<close>, for the token drawn.\<close>

definition retry_plan_path :: "'d env \<Rightarrow> string \<Rightarrow> string" where
  "retry_plan_path env token = data_dir env @ ''/.execution_retry/'' @ token @ ''.json''"

text \<open>
  Line 20 of sync.py imports \<^verbatim>\<open>PathMap, IDMap, FolderNode, FileNode\<close> from the models
  and nothing else binds \<^verbatim>\<open>IDEntry\<close> in the module, so evaluating \<^verbatim>\<open>IDEntry(...)\<close> in
  \<^verbatim>\<open>_ensure_directory\<close> and \<^verbatim>\<open>_sync_file\<close> raises \<^verbatim>\<open>NameError\<close>.
\<close>

definition sync_IDEntry :: "ref \<Rightarrow> string \<Rightarrow> ref option \<Rightarrow> exn + IDEntry" where
  "sync_IDEntry el path par = Inl (Exn NameError ''name IDEntry is not defined'')"

subsection \<open>\<^verbatim>\<open>_scan_source_directory\<close>\<close>

fun scan_files ::
  "string \<Rightarrow> string list \<Rightarrow> (string \<times> string) list \<Rightarrow> (string \<times> string) list" where
  "scan_files rel_root [] source_map = source_map"
| "scan_files rel_root (file # files) source_map =
     (let joined = replace_backslash (path_join rel_root file);
          rel_path = (if startswith joined ''./'' then drop 2 joined else joined)
      in scan_files rel_root files (AList.update rel_path ''file'' source_map))"

fun scan_walk ::
  "(string \<times> string list \<times> string list) list \<Rightarrow> (string \<times> string) list
     \<Rightarrow> (string \<times> string) list" where
  "scan_walk [] source_map = source_map"
| "scan_walk ((rel_root, dirs, files) # rest) source_map =
     (let m1 = (if rel_root \<noteq> ''.'' then
                  (let replaced = replace_backslash rel_root;
                       rel_path = (if \<not> endswith_slash replaced then replaced @ ''/''
                                   else replaced)
                   in AList.update rel_path ''dir'' source_map)
                else source_map)
      in scan_walk rest (scan_files rel_root files m1))"

definition scan_source_directory :: "source \<Rightarrow> exn + (string \<times> string) list" where
  "scan_source_directory s =
     (case src_exists s of
        Inl e \<Rightarrow> Inl e
      | Inr found \<Rightarrow>
          if \<not> found then Inl (Exn FileNotFoundError ''Source directory not found'')
          else Inr (scan_walk (src_walk s) []))"

subsection \<open>\<^verbatim>\<open>_path_exists_in_dest\<close> and \<^verbatim>\<open>_compare_file\<close>\<close>

definition path_exists_in_dest :: "string \<Rightarrow> 'd world \<Rightarrow> bool" where
  "path_exists_in_dest full w = (full \<in> dom (path_map w))"

text \<open>\<^verbatim>\<open>calculate_checksum\<close> of a source file and of a downloaded file.\<close>

definition checksum_source :: "'d env \<Rightarrow> string \<Rightarrow> exn + string" where
  "checksum_source env rel_path =
     (case src_file (src env) rel_path of
        Inl e \<Rightarrow> Inl e
      | Inr None \<Rightarrow> Inl (Exn FileNotFoundError ''No such file or directory'')
      | Inr (Some lf) \<Rightarrow>
          (case lread lf of Inl e \<Rightarrow> Inl e | Inr bytes \<Rightarrow> Inr (digest env bytes)))"

definition checksum_temp :: "'d env \<Rightarrow> string \<Rightarrow> 'd world \<Rightarrow> exn + string" where
  "checksum_temp env temp_path w =
     (case temp_files w temp_path of
        None \<Rightarrow> Inl (Exn FileNotFoundError ''No such file or directory'')
      | Some bytes \<Rightarrow> Inr (digest env bytes))"

text \<open>\<^verbatim>\<open>if temp_path.exists(): temp_path.unlink()\<close>\<close>

definition unlink_if_exists :: "string \<Rightarrow> 'd world \<Rightarrow> 'd world" where
  "unlink_if_exists temp_path w =
     (if temp_path \<in> dom (temp_files w)
      then w\<lparr>temp_files := (temp_files w)(temp_path := None)\<rparr> else w)"

text \<open>
  The \<^verbatim>\<open>try\<close> block of \<^verbatim>\<open>_compare_file\<close>; \<open>Inl\<close> is an exception that reaches the
  \<^verbatim>\<open>except\<close> clause.
\<close>

definition compare_by_checksum ::
  "'d env \<Rightarrow> string \<Rightarrow> int \<Rightarrow> 'd world \<Rightarrow> (exn + bool) \<times> 'd world" where
  "compare_by_checksum env rel_path file_id w =
     (case download env file_id None w of
        (Inl e, w1) \<Rightarrow> (Inl e, w1)
      | (Inr temp_path, w1) \<Rightarrow>
          (case checksum_source env rel_path of
             Inl e \<Rightarrow> (Inl e, w1)
           | Inr src_checksum \<Rightarrow>
               (case checksum_temp env temp_path w1 of
                  Inl e \<Rightarrow> (Inl e, w1)
                | Inr dest_checksum \<Rightarrow>
                    (Inr (src_checksum = dest_checksum), unlink_if_exists temp_path w1))))"

text \<open>
  \<^verbatim>\<open>_compare_file\<close>. In size mode \<^verbatim>\<open>source_path.stat()\<close> is outside any \<^verbatim>\<open>try\<close>, so
  the function can raise.
\<close>

definition compare_file ::
  "engine \<Rightarrow> 'd env \<Rightarrow> string \<Rightarrow> string \<Rightarrow> 'd world \<Rightarrow> (exn + bool) \<times> 'd world" where
  "compare_file eng env rel_path dest_full_path w =
     (case path_map w dest_full_path of
        None \<Rightarrow> (Inr False, w)
      | Some r \<Rightarrow>
          (case heap w r of
             FolderNode i ch \<Rightarrow> (Inr False, w)
           | FileNode file_id file_size \<Rightarrow>
               if \<not> use_checksum eng then
                 (case src_file (src env) rel_path of
                    Inl e \<Rightarrow> (Inl e, w)
                  | Inr None \<Rightarrow> (Inl (Exn FileNotFoundError ''No such file or directory''), w)
                  | Inr (Some lf) \<Rightarrow> (Inr (lsize lf = file_size), w))
               else
                 (case compare_by_checksum env rel_path file_id w of
                    (Inl e, w1) \<Rightarrow> (Inr False, w1)
                  | (Inr same, w1) \<Rightarrow> (Inr same, w1))))"

subsection \<open>\<^verbatim>\<open>verify\<close>\<close>

text \<open>\<^verbatim>\<open>with open(plan_path, "w") as f: json.dump(plan, f, indent=2)\<close>\<close>

definition save_plan :: "string \<Rightarrow> plan \<Rightarrow> 'd world \<Rightarrow> 'd world" where
  "save_plan plan_path execution_plan w =
     w\<lparr>plan_files := (plan_files w)(plan_path \<mapsto> json_dump execution_plan)\<rparr>"

text \<open>The loop of \<^verbatim>\<open>verify\<close> over the items of the source map.\<close>

fun build_plan ::
  "engine \<Rightarrow> 'd env \<Rightarrow> (string \<times> string) list \<Rightarrow> plan \<Rightarrow> 'd world
     \<Rightarrow> (exn + plan) \<times> 'd world" where
  "build_plan eng env [] execution_plan w = (Inr execution_plan, w)"
| "build_plan eng env ((rel_path, entry_type) # rest) execution_plan w =
     (let dest_full_path = normpath (dest_path eng @ ''/'' @ rel_path) in
      if path_exists_in_dest dest_full_path w then
        (if entry_type = ''file'' then
           (case compare_file eng env rel_path dest_full_path w of
              (Inl e, w1) \<Rightarrow> (Inl e, w1)
            | (Inr same, w1) \<Rightarrow>
                if \<not> same
                then build_plan eng env rest
                       (AList.update rel_path (JString ''file'') execution_plan) w1
                else build_plan eng env rest execution_plan w1)
         else build_plan eng env rest execution_plan w)
      else build_plan eng env rest
             (AList.update rel_path (JString entry_type) execution_plan) w)"

definition verify ::
  "engine \<Rightarrow> 'd env \<Rightarrow> string option \<Rightarrow> 'd world \<Rightarrow> (exn + string) \<times> 'd world" where
  "verify eng env plan_path_arg w =
     (let plan_path = (case plan_path_arg of
                         None \<Rightarrow> DEFAULT_EXECUTION_PLAN env
                       | Some p \<Rightarrow> p)
      in case scan_source_directory (src env) of
           Inl e \<Rightarrow> (Inl e, w)
         | Inr source_map \<Rightarrow>
             (case build_plan eng env source_map [] w of
                (Inl e, w1) \<Rightarrow> (Inl e, w1)
              | (Inr execution_plan, w1) \<Rightarrow>
                  (Inr plan_path, save_plan plan_path execution_plan w1)))"


subsection \<open>\<^verbatim>\<open>_ensure_directory\<close>\<close>

text \<open>
  The loop over the path parts. An exception in the \<^verbatim>\<open>try\<close> block (from \<^verbatim>\<open>mkdir\<close>, or
  from evaluating \<^verbatim>\<open>IDEntry\<close>) ends the function with \<^verbatim>\<open>False\<close>; the assignment to
  \<^verbatim>\<open>path_map\<close> that precedes it stays.
\<close>

fun ensure_parts ::
  "engine \<Rightarrow> 'd env \<Rightarrow> string list \<Rightarrow> string \<Rightarrow> int \<Rightarrow> 'd world \<Rightarrow> bool \<times> 'd world" where
  "ensure_parts eng env [] current_path current_id w = (True, w)"
| "ensure_parts eng env (part # parts) current_path current_id w =
     (if part = [] then ensure_parts eng env parts current_path current_id w
      else
        let next_path = current_path @ ''/'' @ part in
        (case path_map w next_path of
          Some r \<Rightarrow> ensure_parts eng env parts next_path (node_id (heap w r)) w
        | None \<Rightarrow>
            (case mkdir env current_id part (storage_id eng) w of
               (Inl e, w1) \<Rightarrow> (False, w1)
             | (Inr new_id, w1) \<Rightarrow>
                 let (new_folder, w2) = new_object (FolderNode new_id []) w1;
                     w3 = w2\<lparr>path_map := (path_map w2)(next_path \<mapsto> new_folder)\<rparr>;
                     par = (case id_map w3 current_id of
                              None \<Rightarrow> None
                            | Some entry \<Rightarrow> Some (element entry))
                 in (case sync_IDEntry new_folder next_path par of
                       Inl e \<Rightarrow> (False, w3)
                     | Inr entry \<Rightarrow>
                         ensure_parts eng env parts next_path new_id
                           (w3\<lparr>id_map := (id_map w3)(new_id \<mapsto> entry)\<rparr>)))))"

definition ensure_directory ::
  "engine \<Rightarrow> 'd env \<Rightarrow> string \<Rightarrow> 'd world \<Rightarrow> bool \<times> 'd world" where
  "ensure_directory eng env rel_path_arg w0 =
     (let w = w0\<lparr>calls := calls w0 @ [Call_ensure_directory rel_path_arg]\<rparr>;
          rel_path = (if \<not> endswith_slash rel_path_arg then rel_path_arg @ ''/''
                      else rel_path_arg);
          full = normpath (dest_path eng @ ''/'' @ rel_path)
      in if full \<in> dom (path_map w) then (True, w)
         else
           let split = split_slash rel_path;
               path_parts = (if last split = [] then butlast split else split)
           in ensure_parts eng env path_parts (dest_path eng) 0 w)"

subsection \<open>\<^verbatim>\<open>_sync_file\<close>\<close>

text \<open>The validation of an upload; \<open>Inr False\<close> is the checksum mismatch.\<close>

definition validate_upload ::
  "engine \<Rightarrow> 'd env \<Rightarrow> string \<Rightarrow> int \<Rightarrow> 'd world \<Rightarrow> (exn + bool) \<times> 'd world" where
  "validate_upload eng env rel_path new_id w =
     (if use_checksum eng then
        (case download env new_id None w of
           (Inl e, w1) \<Rightarrow> (Inl e, w1)
         | (Inr temp_path, w1) \<Rightarrow>
             (case checksum_source env rel_path of
                Inl e \<Rightarrow> (Inl e, w1)
              | Inr src_checksum \<Rightarrow>
                  (case checksum_temp env temp_path w1 of
                     Inl e \<Rightarrow> (Inl e, w1)
                   | Inr dest_checksum \<Rightarrow>
                       (Inr (src_checksum = dest_checksum), unlink_if_exists temp_path w1))))
      else (Inr True, w))"

text \<open>The \<^verbatim>\<open>try\<close> block of \<^verbatim>\<open>_sync_file\<close>.\<close>

definition sync_file_try ::
  "engine \<Rightarrow> 'd env \<Rightarrow> string \<Rightarrow> lfile \<Rightarrow> ref \<Rightarrow> int \<Rightarrow> 'd world
     \<Rightarrow> (exn + bool) \<times> 'd world" where
  "sync_file_try eng env rel_path lf parent_node parent_id w =
     (let file_name = basename rel_path in
      case upload env rel_path parent_id (Some file_name) w of
        (Inl e, w1) \<Rightarrow> (Inl e, w1)
      | (Inr new_id, w1) \<Rightarrow>
          (case validate_upload eng env rel_path new_id w1 of
             (Inl e, w2) \<Rightarrow> (Inl e, w2)
           | (Inr valid, w2) \<Rightarrow>
               if \<not> valid then (Inr False, w2)
               else
                 let dest_full_path = dest_path eng @ ''/'' @ rel_path;
                     (file_node, w3) = new_object (FileNode new_id (lsize lf)) w2;
                     w4 = set_child parent_node file_name file_node w3
                 in (case sync_IDEntry file_node dest_full_path (Some parent_node) of
                       Inl e \<Rightarrow> (Inl e, w4)
                     | Inr entry \<Rightarrow>
                         (Inr True, w4\<lparr>id_map := (id_map w4)(new_id \<mapsto> entry)\<rparr>))))"

text \<open>
  \<^verbatim>\<open>parent_rel_path = os.path.dirname(rel_path)\<close>, with a slash appended unless it is
  empty.
\<close>

definition parent_rel_path :: "string \<Rightarrow> string" where
  "parent_rel_path rel_path =
     (let dir = dirname rel_path in if dir \<noteq> [] then dir @ ''/'' else dir)"

text \<open>
  \<^verbatim>\<open>_sync_file\<close>. \<^verbatim>\<open>source_path.exists()\<close> is called outside any \<^verbatim>\<open>try\<close>, so an error
  that it raises leaves the function (\<open>Inl\<close>); an exception of the \<^verbatim>\<open>try\<close> block is
  answered with \<^verbatim>\<open>False\<close>.
\<close>

definition sync_file ::
  "engine \<Rightarrow> 'd env \<Rightarrow> string \<Rightarrow> 'd world \<Rightarrow> (exn + bool) \<times> 'd world" where
  "sync_file eng env rel_path w0 =
     (let w = w0\<lparr>calls := calls w0 @ [Call_sync_file rel_path]\<rparr> in
      case src_file (src env) rel_path of
        Inl e \<Rightarrow> (Inl e, w)
      | Inr None \<Rightarrow> (Inr False, w)
      | Inr (Some lf) \<Rightarrow>
          let parent_rel = parent_rel_path rel_path;
              parent_dest_path = normpath (dest_path eng @ ''/'' @ parent_rel);
              (ok, w1) = ensure_directory eng env parent_rel w
          in if \<not> ok then (Inr False, w1)
             else
               (case path_map w1 parent_dest_path of
                  None \<Rightarrow> (Inr False, w1)
                | Some parent_node \<Rightarrow>
                    (case heap w1 parent_node of
                       FileNode i sz \<Rightarrow> (Inr False, w1)
                     | FolderNode parent_id ch \<Rightarrow>
                         (case sync_file_try eng env rel_path lf parent_node parent_id w1 of
                            (Inl e, w2) \<Rightarrow> (Inr False, w2)
                          | (Inr res, w2) \<Rightarrow> (Inr res, w2)))))"

subsection \<open>\<^verbatim>\<open>execute\<close>\<close>

definition find_latest_plan :: "'d env \<Rightarrow> 'd world \<Rightarrow> string option" where
  "find_latest_plan env w =
     (if DEFAULT_EXECUTION_PLAN env \<in> dom (plan_files w) then Some (DEFAULT_EXECUTION_PLAN env)
      else latest_retry_plan env (plan_files w))"

text \<open>The first loop of \<^verbatim>\<open>execute\<close>.\<close>

fun create_directories ::
  "engine \<Rightarrow> 'd env \<Rightarrow> plan \<Rightarrow> plan \<Rightarrow> 'd world \<Rightarrow> plan \<times> 'd world" where
  "create_directories eng env [] failed_entries w = (failed_entries, w)"
| "create_directories eng env ((rel_path, entry_type) # rest) failed_entries w =
     (if entry_type = JString ''dir'' then
        (let (success, w1) = ensure_directory eng env rel_path w
         in create_directories eng env rest
              (if \<not> success then AList.update rel_path entry_type failed_entries
               else failed_entries) w1)
      else create_directories eng env rest failed_entries w)"

text \<open>
  The second loop of \<^verbatim>\<open>execute\<close>. An error that \<^verbatim>\<open>_sync_file\<close> raises ends the loop
  and \<^verbatim>\<open>execute\<close> with it.
\<close>

fun create_files ::
  "engine \<Rightarrow> 'd env \<Rightarrow> plan \<Rightarrow> plan \<Rightarrow> 'd world \<Rightarrow> (exn + plan) \<times> 'd world" where
  "create_files eng env [] failed_entries w = (Inr failed_entries, w)"
| "create_files eng env ((rel_path, entry_type) # rest) failed_entries w =
     (if entry_type = JString ''file'' then
        (case sync_file eng env rel_path w of
           (Inl e, w1) \<Rightarrow> (Inl e, w1)
         | (Inr success, w1) \<Rightarrow>
             create_files eng env rest
               (if \<not> success then AList.update rel_path entry_type failed_entries
                else failed_entries) w1)
      else create_files eng env rest failed_entries w)"

text \<open>\<^verbatim>\<open>execute\<close> from the loaded plan on; \<open>token\<close> is \<^verbatim>\<open>uuid.uuid4().hex\<close>.\<close>

definition run_plan ::
  "engine \<Rightarrow> 'd env \<Rightarrow> plan \<Rightarrow> string \<Rightarrow> 'd world
     \<Rightarrow> (exn + bool \<times> string option) \<times> 'd world" where
  "run_plan eng env execution_plan token w =
     (let (failed1, w1) = create_directories eng env execution_plan [] w
      in case create_files eng env execution_plan failed1 w1 of
           (Inl e, w2) \<Rightarrow> (Inl e, w2)
         | (Inr failed_entries, w2) \<Rightarrow>
             if failed_entries \<noteq> [] then
               (let retry_path = retry_plan_path env token
                in (Inr (False, Some retry_path), save_plan retry_path failed_entries w2))
             else (Inr (True, None), w2))"

text \<open>The plan file that \<^verbatim>\<open>execute\<close> reads: the one given, else the latest, else a new one.\<close>

definition find_plan ::
  "engine \<Rightarrow> 'd env \<Rightarrow> string option \<Rightarrow> 'd world \<Rightarrow> (exn + string) \<times> 'd world" where
  "find_plan eng env plan_path_arg w =
     (case plan_path_arg of
        Some p \<Rightarrow> (Inr p, w)
      | None \<Rightarrow>
          (case find_latest_plan env w of
             Some p \<Rightarrow> (Inr p, w)
           | None \<Rightarrow> verify eng env None w))"

text \<open>\<^verbatim>\<open>with open(plan_path, "r") as f: execution_plan = json.load(f)\<close>\<close>

definition load_plan :: "string \<Rightarrow> 'd world \<Rightarrow> exn + plan" where
  "load_plan plan_path w =
     (case plan_files w plan_path of
        None \<Rightarrow> Inl (Exn FileNotFoundError ''No such file or directory'')
      | Some doc \<Rightarrow> json_load_items doc)"

definition execute ::
  "engine \<Rightarrow> 'd env \<Rightarrow> string option \<Rightarrow> string \<Rightarrow> 'd world
     \<Rightarrow> (exn + bool \<times> string option) \<times> 'd world" where
  "execute eng env plan_path_arg token w =
     (case find_plan eng env plan_path_arg w of
        (Inl e, w1) \<Rightarrow> (Inl e, w1)
      | (Inr plan_path, w1) \<Rightarrow>
          (case load_plan plan_path w1 of
             Inl e \<Rightarrow> (Inl e, w1)
           | Inr execution_plan \<Rightarrow> run_plan eng env execution_plan token w1))"

section \<open>The handler calls of a run\<close>





section \<open>Frame conditions\<close>

text \<open>
  Between two worlds, the client's index (both maps and the node objects), the plan
  files and the record of handler calls are the same.
\<close>

definition same_index :: "'d world \<Rightarrow> 'd world \<Rightarrow> bool" where
  "same_index w w' =
     (path_map w' = path_map w \<and> id_map w' = id_map w \<and> heap w' = heap w \<and>
      next_ref w' = next_ref w \<and> calls w' = calls w \<and> plan_files w' = plan_files w)"

section \<open>Concrete inputs\<close>



text \<open>
  Two runs of \<^verbatim>\<open>random.uniform(0, 1)\<close>: one that returns 0 every time and one that
  returns a half every time.
\<close>

definition no_jitter :: "nat \<Rightarrow> unit01" where
  "no_jitter k = Abs_unit01 0"


text \<open>
  A device that always succeeds. Its state is the list of the objects created on it
  (name and parent id); the object created next gets the id \<open>100 + length\<close>, and every
  download writes the same bytes.
\<close>

definition demo_lib :: "(string \<times> int) list libmtp" where
  "demo_lib = \<lparr>
     LIBMTP_Get_File_To_File = (\<lambda>dv file_id target. (0, Some ''remote bytes'', dv)),
     LIBMTP_Send_File_From_File =
       (\<lambda>dv lf parent_id fname. (0, 100 + int (length dv), dv @ [(fname, parent_id)])),
     LIBMTP_Create_Folder =
       (\<lambda>dv name parent_id sid. (100 + int (length dv), dv @ [(name, parent_id)]))\<rparr>"

definition demo_env :: "source \<Rightarrow> (string \<times> int) list env" where
  "demo_env s = \<lparr>lib = demo_lib, jitter = no_jitter, digest = (\<lambda>b. b), src = s,
     data_dir = ''/data'', latest_retry_plan = (\<lambda>fs. None)\<rparr>"

text \<open>
  A destination \<^verbatim>\<open>/d\<close> that holds \<^verbatim>\<open>a.txt\<close> (id 7, five bytes), and a source
  directory whose \<^verbatim>\<open>a.txt\<close> has five bytes and cannot be read.
\<close>

definition dest_world :: "(string \<times> int) list world" where
  "dest_world = \<lparr>device = Some [],
     path_map = [''/d'' \<mapsto> 0, ''/d/a.txt'' \<mapsto> 1],
     id_map = [1 \<mapsto> \<lparr>element = 0, full_path = ''/d'', parent = None\<rparr>,
               7 \<mapsto> \<lparr>element = 1, full_path = ''/d/a.txt'', parent = Some 0\<rparr>],
     heap = (\<lambda>r. if r = 0 then FolderNode 1 [(''a.txt'', 1)] else FileNode 7 5),
     next_ref = 2, temp_files = Map.empty, plan_files = Map.empty, calls = []\<rparr>"

definition unreadable_source :: source where
  "unreadable_source = \<lparr>src_exists = Inr True, src_walk = [(''.'', [], [''a.txt''])],
     src_file = (\<lambda>p. if p = ''a.txt''
                    then Inr (Some \<lparr>lsize = 5,
                                     lread = Inl (Exn PermissionError ''Permission denied'')\<rparr>)
                    else Inr None)\<rparr>"

text \<open>
  A destination \<^verbatim>\<open>/d\<close> that holds the folder \<^verbatim>\<open>sub\<close>, a source directory with a
  readable \<^verbatim>\<open>a.txt\<close> of five bytes and the directories \<^verbatim>\<open>new\<close> and \<^verbatim>\<open>sub\<close>, and the
  default plan file with one entry for each.
\<close>

definition readable_source :: source where
  "readable_source = \<lparr>src_exists = Inr True,
     src_walk = [(''.'', [''new'', ''sub''], [''a.txt'']), (''new'', [], []), (''sub'', [], [])],
     src_file = (\<lambda>p. if p = ''a.txt'' then Inr (Some \<lparr>lsize = 5, lread = Inr ''hello''\<rparr>)
                    else Inr None)\<rparr>"

definition resume_plan :: plan where
  "resume_plan =
     [(''a.txt'', JString ''file''), (''new/'', JString ''dir''), (''sub/'', JString ''dir'')]"

definition resume_world :: "(string \<times> int) list world" where
  "resume_world = \<lparr>device = Some [],
     path_map = [''/d'' \<mapsto> 0, ''/d/sub'' \<mapsto> 1],
     id_map = [1 \<mapsto> \<lparr>element = 0, full_path = ''/d'', parent = None\<rparr>,
               2 \<mapsto> \<lparr>element = 1, full_path = ''/d/sub'', parent = Some 0\<rparr>],
     heap = (\<lambda>r. if r = 0 then FolderNode 1 [] else FolderNode 2 []),
     next_ref = 2, temp_files = Map.empty,
     plan_files = [''/data/execution_plan.json'' \<mapsto> JObject resume_plan],
     calls = []\<rparr>"

text \<open>
  A source directory that holds the empty directory \<^verbatim>\<open>sub\<close>, an engine whose
  destination is \<^verbatim>\<open>/d/\<close>, and an index that has the folder \<^verbatim>\<open>/d\<close> only. Then the
  worlds of three rounds, each a \<^verbatim>\<open>verify\<close> followed by an \<^verbatim>\<open>execute\<close> of the default
  plan file.
\<close>

definition sub_source :: source where
  "sub_source = \<lparr>src_exists = Inr True,
     src_walk = [(''.'', [''sub''], []), (''sub'', [], [])],
     src_file = (\<lambda>p. Inr None)\<rparr>"

definition slashed_engine :: engine where
  "slashed_engine = SyncEngine ''/d/'' False 0"

definition fresh_world :: "(string \<times> int) list world" where
  "fresh_world = \<lparr>device = Some [],
     path_map = [''/d'' \<mapsto> 0],
     id_map = [1 \<mapsto> \<lparr>element = 0, full_path = ''/d'', parent = None\<rparr>],
     heap = (\<lambda>r. FolderNode 1 []),
     next_ref = 1, temp_files = Map.empty, plan_files = Map.empty, calls = []\<rparr>"

definition first_verified :: "(string \<times> int) list world" where
  "first_verified = snd (verify slashed_engine (demo_env sub_source) None fresh_world)"

definition first_executed :: "(string \<times> int) list world" where
  "first_executed =
     snd (execute slashed_engine (demo_env sub_source) (Some ''/data/execution_plan.json'')
            ''tok1'' first_verified)"

definition second_verified :: "(string \<times> int) list world" where
  "second_verified = snd (verify slashed_engine (demo_env sub_source) None first_executed)"

definition second_executed :: "(string \<times> int) list world" where
  "second_executed =
     snd (execute slashed_engine (demo_env sub_source) (Some ''/data/execution_plan.json'')
            ''tok2'' second_verified)"

definition third_verified :: "(string \<times> int) list world" where
  "third_verified = snd (verify slashed_engine (demo_env sub_source) None second_executed)"

text \<open>The world after a first \<^verbatim>\<open>_ensure_directory("a/b/")\<close> under the destination \<^verbatim>\<open>/d\<close>.\<close>

definition twice_first :: "(string \<times> int) list world" where
  "twice_first =
     snd (ensure_directory (SyncEngine ''/d'' False 0) (demo_env readable_source) ''a/b/''
            resume_world)"

text \<open>
  A source directory whose directory \<^verbatim>\<open>sub\<close> can be listed and not searched, so that
  \<^verbatim>\<open>exists()\<close> raises \<^verbatim>\<open>PermissionError\<close> for \<^verbatim>\<open>sub/f.txt\<close>, and in which \<^verbatim>\<open>gone.txt\<close>
  is no more. The default plan file has an entry for both files.
\<close>

definition locked_source :: source where
  "locked_source = \<lparr>src_exists = Inr True,
     src_walk = [(''.'', [''sub''], []), (''sub'', [], [''f.txt''])],
     src_file = (\<lambda>p. if p = ''sub/f.txt'' then Inl (Exn PermissionError ''Permission denied'')
                    else Inr None)\<rparr>"

definition locked_plan :: plan where
  "locked_plan = [(''gone.txt'', JString ''file''), (''sub/f.txt'', JString ''file'')]"

definition locked_world :: "(string \<times> int) list world" where
  "locked_world = \<lparr>device = Some [],
     path_map = [''/d'' \<mapsto> 0],
     id_map = [1 \<mapsto> \<lparr>element = 0, full_path = ''/d'', parent = None\<rparr>],
     heap = (\<lambda>r. FolderNode 1 []),
     next_ref = 1, temp_files = Map.empty,
     plan_files = [''/data/execution_plan.json'' \<mapsto> JObject locked_plan],
     calls = []\<rparr>"

section \<open>The retry wrapper\<close>




text \<open>
  A delay that \<^verbatim>\<open>time.sleep\<close> refuses ends the run: the operation is not invoked again and
  the error of \<^verbatim>\<open>time.sleep\<close> is raised, not the error of the operation.
\<close>

lemma with_retry_sleep_raises:
  assumes "func w = (Inl e, w')" and "caught excs e" and "1 \<le> N"
    and "sleep (bf ^ 1 + uniform jit 1) = Some sleep_error"
  shows "with_retry N bf excs jit sleep func w =
           \<lparr>outcome = Inl sleep_error, final = w', attempts = 1, delays = []\<rparr>"
  using assms by (simp add: with_retry_def)

lemma uniform_range: "0 \<le> uniform jit k" "uniform jit k \<le> 1"
  using Rep_unit01[of "jit k"] by (simp_all add: uniform_def)



lemma time_sleep_accepts: "0 \<le> secs \<Longrightarrow> secs \<le> 10 ^ 9 \<Longrightarrow> time_sleep secs = None"
  by (simp add: time_sleep_def)






lemma retry_loop_preserves:
  assumes "\<And>w. g (snd (func w)) = g w"
  shows "g (final (retry_loop m bf excs jit sleep func rc lst n ds w)) = g w"
  using assms
proof (induction m bf excs jit sleep func rc lst n ds w rule: retry_loop.induct)
  case (1 m bf excs jit sleep func rc lst n ds w)
  obtain res w' where fw: "func w = (res, w')" by (cases "func w")
  have gw: "g w' = g w" using "1.prems"[of w] fw by simp
  show ?case
  proof (cases "rc \<le> m")
    case False
    then show ?thesis by (simp add: after_loop_def split: option.splits)
  next
    case le: True
    show ?thesis
    proof (cases res)
      case (Inr v)
      then show ?thesis using fw le gw by simp
    next
      case (Inl e)
      show ?thesis
      proof (cases "caught excs e")
        case False
        then show ?thesis using fw le gw Inl by simp
      next
        case c: True
        show ?thesis
        proof (cases "rc + 1 > m")
          case True
          then show ?thesis using fw le gw Inl c by (simp add: after_loop_def)
        next
          case False
          let ?delay = "bf ^ nat (rc + 1) + uniform jit (nat (rc + 1))"
          show ?thesis
          proof (cases "sleep ?delay")
            case (Some sleep_error)
            then show ?thesis using fw le gw Inl c False by simp
          next
            case None
            have step: "retry_loop m bf excs jit sleep func rc lst n ds w =
                        retry_loop m bf excs jit sleep func (rc + 1) (Some e) (Suc n)
                          (ds @ [?delay]) w'"
              using fw le Inl c False None
              by (subst retry_loop.simps) (simp del: retry_loop.simps)
            have "g (final (retry_loop m bf excs jit sleep func (rc + 1) (Some e) (Suc n)
                    (ds @ [?delay]) w')) = g w'"
              using "1.IH"[OF le fw[symmetric] Inl _ _ refl None] c False "1.prems"
              by (simp del: retry_loop.simps)
            then show ?thesis unfolding step using gw by simp
          qed
        qed
      qed
    qed
  qed
qed

lemma with_retry_preserves:
  assumes "\<And>w. g (snd (func w)) = g w"
  shows "g (final (with_retry m bf excs jit sleep func w)) = g w"
  unfolding with_retry_def using assms by (rule retry_loop_preserves)


section \<open>What the device operations and the diff leave unchanged\<close>

lemma same_index_refl: "same_index w w"
  by (simp add: same_index_def)

lemma same_index_trans: "same_index w w1 \<Longrightarrow> same_index w1 w2 \<Longrightarrow> same_index w w2"
  by (simp add: same_index_def)

lemma with_retry_same_index:
  assumes "\<And>w. same_index w (snd (func w))"
  shows "same_index w (final (with_retry m bf excs jit sleep func w))"
proof -
  have "path_map (final (with_retry m bf excs jit sleep func w)) = path_map w"
    by (rule with_retry_preserves) (use assms in \<open>simp add: same_index_def\<close>)
  moreover have "id_map (final (with_retry m bf excs jit sleep func w)) = id_map w"
    by (rule with_retry_preserves) (use assms in \<open>simp add: same_index_def\<close>)
  moreover have "heap (final (with_retry m bf excs jit sleep func w)) = heap w"
    by (rule with_retry_preserves) (use assms in \<open>simp add: same_index_def\<close>)
  moreover have "next_ref (final (with_retry m bf excs jit sleep func w)) = next_ref w"
    by (rule with_retry_preserves) (use assms in \<open>simp add: same_index_def\<close>)
  moreover have "calls (final (with_retry m bf excs jit sleep func w)) = calls w"
    by (rule with_retry_preserves) (use assms in \<open>simp add: same_index_def\<close>)
  moreover have "plan_files (final (with_retry m bf excs jit sleep func w)) = plan_files w"
    by (rule with_retry_preserves) (use assms in \<open>simp add: same_index_def\<close>)
  ultimately show ?thesis by (simp add: same_index_def)
qed

lemma raw_download_same_index: "same_index w (snd (raw_download l file_id target w))"
  by (simp add: same_index_def raw_download_def Let_def split: option.splits prod.splits)


lemma raw_upload_temp_files: "temp_files (snd (raw_upload l s sp pid fn w)) = temp_files w"
  by (simp add: raw_upload_def Let_def split: option.splits prod.splits sum.splits)



lemma download_same_index:
  "download env file_id target w = (res, w') \<Longrightarrow> same_index w w'"
  using with_retry_same_index[of "raw_download (lib env) file_id target", OF raw_download_same_index]
  by (auto simp: download_def download_run_def Let_def)


lemma upload_temp_files:
  "upload env sp pid fn w = (res, w') \<Longrightarrow> temp_files w' = temp_files w"
  using with_retry_preserves[of temp_files "raw_upload (lib env) (src env) sp pid fn", OF raw_upload_temp_files]
  by (auto simp: upload_def upload_run_def Let_def)



lemma unlink_if_exists_same_index: "same_index w (unlink_if_exists p w)"
  by (simp add: same_index_def unlink_if_exists_def)

lemma compare_by_checksum_same_index:
  "compare_by_checksum env rel fid w = (res, w') \<Longrightarrow> same_index w w'"
  by (auto simp: compare_by_checksum_def split: prod.splits sum.splits
      dest!: download_same_index
      intro: same_index_trans[OF _ unlink_if_exists_same_index])

lemma compare_file_same_index:
  "compare_file eng env rel full w = (res, w') \<Longrightarrow> same_index w w'"
  by (auto simp: compare_file_def same_index_refl
      split: option.splits node.splits prod.splits sum.splits if_splits
      dest!: compare_by_checksum_same_index)

lemma build_plan_same_index:
  "build_plan eng env source_map acc w = (res, w') \<Longrightarrow> same_index w w'"
proof (induction source_map arbitrary: acc w)
  case Nil
  then show ?case by (simp add: same_index_refl)
next
  case (Cons a source_map)
  obtain rel_path entry_type where a: "a = (rel_path, entry_type)" by (cases a)
  show ?case
    using Cons.prems unfolding a
    by (auto simp: Let_def split: if_splits prod.splits sum.splits
        dest!: compare_file_same_index Cons.IH intro: same_index_trans)
qed

lemma verify_index:
  "verify eng env plan_path w = (res, w') \<Longrightarrow>
     path_map w' = path_map w \<and> id_map w' = id_map w \<and> heap w' = heap w \<and>
     next_ref w' = next_ref w \<and> calls w' = calls w"
  by (auto simp: verify_def Let_def save_plan_def same_index_def
      split: sum.splits prod.splits dest!: build_plan_same_index)

text \<open>
  C9. \<^verbatim>\<open>verify\<close> leaves \<^verbatim>\<open>path_map\<close> and \<^verbatim>\<open>id_map\<close> as they were, and the node objects
  with them, whatever the source directory, the index, the device and the mode (the
  engine \<open>eng\<close> is arbitrary, so with and without checksums), and also when it raises.
\<close>

theorem verify_never_mutates_index:
  "path_map (snd (verify eng env plan_path w)) = path_map w \<and>
   id_map (snd (verify eng env plan_path w)) = id_map w \<and>
   heap (snd (verify eng env plan_path w)) = heap w"
  using verify_index[of eng env plan_path w] by (cases "verify eng env plan_path w") simp

section \<open>The decorated device operations\<close>

lemma caught_default: "caught default_exceptions e"
  by (simp add: caught_def default_exceptions_def)



lemma retry_constant_failure:
  assumes "func w = (Inl e, w)" and "caught excs e"
  shows "with_retry 3 RETRY_BACKOFF_FACTOR excs jit time_sleep func w =
     \<lparr>outcome = Inl e, final = w, attempts = 4,
      delays = [2 ^ 1 + uniform jit 1, 2 ^ 2 + uniform jit 2, 2 ^ 3 + uniform jit 3]\<rparr>"
proof -
  have "time_sleep (2 + uniform jit (Suc 0)) = None" "time_sleep (4 + uniform jit 2) = None"
    "time_sleep (8 + uniform jit 3) = None"
    using uniform_range[of jit "Suc 0"] uniform_range[of jit 2] uniform_range[of jit 3]
    by (simp_all add: time_sleep_accepts)
  then show ?thesis
    using assms by (simp add: with_retry_def after_loop_def RETRY_BACKOFF_FACTOR_def)
qed



section \<open>The scratch copy of a comparison\<close>

lemma download_a_txt:
  "download (demo_env unreadable_source) 7 None dest_world =
     (Inr ''/tmp/mtpsync/a.txt'',
      dest_world\<lparr>device := Some [], temp_files := [''/tmp/mtpsync/a.txt'' \<mapsto> ''remote bytes'']\<rparr>)"
  by (simp add: download_def download_run_def with_retry_def raw_download_def demo_env_def
      demo_lib_def dest_world_def temp_join_def TEMP_DIR_def basename_def Let_def)

text \<open>In checksum mode a comparison never raises.\<close>

lemma compare_file_checksum_never_raises:
  "use_checksum eng \<Longrightarrow> \<exists>b. fst (compare_file eng env rel full w) = Inr b"
  by (auto simp: compare_file_def split: option.splits node.splits prod.splits sum.splits)

text \<open>
  C5, at the unreadable source file: in checksum mode the remote \<^verbatim>\<open>a.txt\<close> is downloaded
  to \<^verbatim>\<open>/tmp/mtpsync/a.txt\<close>, computing the digest of the source raises, the comparison
  answers \<^verbatim>\<open>False\<close>, and the downloaded copy is still there afterwards.
\<close>

theorem compare_file_leaves_scratch_copy:
  "temp_files dest_world ''/tmp/mtpsync/a.txt'' = None \<and>
   fst (compare_file (SyncEngine ''/d'' True 0) (demo_env unreadable_source)
          ''a.txt'' ''/d/a.txt'' dest_world) = Inr False \<and>
   temp_files (snd (compare_file (SyncEngine ''/d'' True 0) (demo_env unreadable_source)
          ''a.txt'' ''/d/a.txt'' dest_world)) ''/tmp/mtpsync/a.txt'' = Some ''remote bytes''"
proof -
  have src: "checksum_source (demo_env unreadable_source) ''a.txt''
               = Inl (Exn PermissionError ''Permission denied'')"
    by (simp add: checksum_source_def demo_env_def unreadable_source_def)
  have cmp: "compare_by_checksum (demo_env unreadable_source) ''a.txt'' 7 dest_world =
     (Inl (Exn PermissionError ''Permission denied''),
      dest_world\<lparr>device := Some [], temp_files := [''/tmp/mtpsync/a.txt'' \<mapsto> ''remote bytes'']\<rparr>)"
    by (simp add: compare_by_checksum_def download_a_txt src)
  have node: "path_map dest_world ''/d/a.txt'' = Some (Suc 0)" "heap dest_world (Suc 0) = FileNode 7 5"
    by (simp_all add: dest_world_def)
  have chk: "use_checksum (SyncEngine ''/d'' True 0)" by (simp add: SyncEngine_def)
  have "compare_file (SyncEngine ''/d'' True 0) (demo_env unreadable_source)
          ''a.txt'' ''/d/a.txt'' dest_world =
     (Inr False,
      dest_world\<lparr>device := Some [], temp_files := [''/tmp/mtpsync/a.txt'' \<mapsto> ''remote bytes'']\<rparr>)"
    by (simp add: compare_file_def node chk cmp)
  then show ?thesis by (simp add: dest_world_def)
qed

section \<open>Plans written and read back\<close>

lemma update_fresh: "k \<notin> fst ` set al \<Longrightarrow> AList.update k v al = al @ [(k, v)]"
  by (induction al) auto

lemma foldl_update_distinct:
  "distinct (map fst (acc @ kvs)) \<Longrightarrow>
   foldl (\<lambda>d (k, v). AList.update k v d) acc kvs = acc @ kvs"
proof (induction kvs arbitrary: acc)
  case Nil
  then show ?case by simp
next
  case (Cons kv kvs)
  obtain k v where kv: "kv = (k, v)" by (cases kv)
  have fresh: "k \<notin> fst ` set acc" using Cons.prems kv by auto
  have "distinct (map fst ((acc @ [(k, v)]) @ kvs))" using Cons.prems kv by simp
  from Cons.IH[OF this] show ?case using fresh kv by (simp add: update_fresh)
qed

lemma dict_of_members_distinct:
  "distinct (map fst kvs) \<Longrightarrow> dict_of_members kvs = kvs"
  using foldl_update_distinct[of "[]" kvs] by (simp add: dict_of_members_def)

lemma load_save_plan:
  "distinct (map fst execution_plan) \<Longrightarrow>
   load_plan plan_path (save_plan plan_path execution_plan w) = Inr execution_plan"
  by (simp add: load_plan_def save_plan_def json_dump_def json_load_items_def
      dict_of_members_distinct)

text \<open>The plan that \<^verbatim>\<open>verify\<close> wrote is the plan that \<^verbatim>\<open>execute\<close> loads.\<close>

lemma build_plan_distinct:
  "distinct (map fst acc) \<Longrightarrow> build_plan eng env sm acc w = (Inr pl, w') \<Longrightarrow>
   distinct (map fst pl)"
proof (induction sm arbitrary: acc w)
  case Nil
  then show ?case by simp
next
  case (Cons a sm)
  obtain rel_path entry_type where a: "a = (rel_path, entry_type)" by (cases a)
  have u: "\<And>v. distinct (map fst (AList.update rel_path v acc))"
    using Cons.prems(1) by (rule distinct_update)
  show ?case
    using Cons.prems(2) Cons.IH[OF Cons.prems(1)] Cons.IH[OF u] unfolding a
    by (auto simp: Let_def split: if_splits prod.splits sum.splits)
qed

lemma verify_plan_loads:
  assumes "verify eng env arg w = (Inr p, w')"
    and "scan_source_directory (src env) = Inr sm"
  shows "load_plan p w' = fst (build_plan eng env sm [] w)"
proof -
  obtain res w1 where b: "build_plan eng env sm [] w = (res, w1)"
    by (cases "build_plan eng env sm [] w")
  show ?thesis
  proof (cases res)
    case (Inl e)
    then show ?thesis using assms b by (simp add: verify_def Let_def)
  next
    case (Inr pl)
    have "distinct (map fst pl)" using build_plan_distinct[of "[]"] b Inr by simp
    then show ?thesis
      using assms b Inr load_save_plan[of pl _ w1]
      by (auto simp: verify_def Let_def split: option.splits)
  qed
qed

text \<open>
  C8. A plan (a dict, so with distinct keys; the values may be any JSON values, the
  strings \<^verbatim>\<open>"file"\<close> and \<^verbatim>\<open>"dir"\<close> among them) that is written as \<^verbatim>\<open>verify\<close> writes it
  and read back as \<^verbatim>\<open>execute\<close> reads it is the same plan: same keys, same values, same
  order.
\<close>

theorem plan_round_trip:
  assumes "distinct (map fst execution_plan)"
  shows "load_plan plan_path (save_plan plan_path execution_plan w) = Inr execution_plan"
  using assms by (rule load_save_plan)

theorem plan_round_trip_witness:
  "distinct (map fst [(''a.txt'', JString ''file''), (''sub/'', JString ''dir''),
                      (''sub/b.txt'', JString ''file'')]) \<and>
   load_plan ''/data/execution_plan.json''
     (save_plan ''/data/execution_plan.json''
        [(''a.txt'', JString ''file''), (''sub/'', JString ''dir''),
         (''sub/b.txt'', JString ''file'')] dest_world)
   = Inr [(''a.txt'', JString ''file''), (''sub/'', JString ''dir''),
          (''sub/b.txt'', JString ''file'')]"
  using plan_round_trip[of "[(''a.txt'', JString ''file''), (''sub/'', JString ''dir''),
                      (''sub/b.txt'', JString ''file'')]" "''/data/execution_plan.json''" dest_world]
  by simp


section \<open>The two phases of \<^verbatim>\<open>execute\<close>\<close>

lemma new_object_frame:
  "new_object n w = (r, w') \<Longrightarrow>
     plan_files w' = plan_files w \<and> calls w' = calls w \<and> id_map w' = id_map w \<and>
     temp_files w' = temp_files w \<and> path_map w' = path_map w \<and> device w' = device w"
  by (auto simp: new_object_def)












lemma execute_loaded:
  "load_plan plan_path w = Inr pl \<Longrightarrow>
   execute eng env (Some plan_path) token w = run_plan eng env pl token w"
  by (simp add: execute_def find_plan_def)


subsection \<open>A run with a directory entry that fails\<close>


lemma resume_engine:
  "dest_path (SyncEngine ''/d'' False 0) = ''/d''"
  "use_checksum (SyncEngine ''/d'' False 0) = False"
  "storage_id (SyncEngine ''/d'' False 0) = 0"
  by (simp_all add: SyncEngine_def startswith_def)

lemma normpath_d_sub: "normpath ''/d/sub/'' = ''/d/sub''"
  by (simp add: normpath_def startswith_def Let_def eval_nat_numeral)

lemma normpath_d: "normpath ''/d/'' = ''/d''" "normpath ''/d//'' = ''/d''"
  by (simp_all add: normpath_def startswith_def Let_def eval_nat_numeral)


lemma resume_lookup:
  "path_map resume_world ''/d'' = Some 0"
  "path_map resume_world ''/d/sub'' = Some (Suc 0)"
  "path_map resume_world ''/d/a.txt'' = None"
  "path_map resume_world ''/d/new'' = None"
  "heap resume_world 0 = FolderNode 1 []"
  "id_map resume_world 100 = None"
  "next_ref resume_world = 2"
  by (simp_all add: resume_world_def)

lemma demo_mkdir:
  "device w = Some dv \<Longrightarrow>
   mkdir (demo_env s) pid name sid w =
     (Inr (100 + int (length dv)), w\<lparr>device := Some (dv @ [(name, pid)])\<rparr>)"
  by (simp add: mkdir_def mkdir_run_def with_retry_def raw_mkdir_def demo_env_def demo_lib_def Let_def)



subsection \<open>A run in which \<^verbatim>\<open>_sync_file\<close> raises\<close>

lemma locked_load: "load_plan ''/data/execution_plan.json'' locked_world = Inr locked_plan"
  by (simp add: load_plan_def locked_world_def json_load_items_def dict_of_members_def
      locked_plan_def)

lemma locked_gone:
  "sync_file eng (demo_env locked_source) ''gone.txt'' w =
     (Inr False, w\<lparr>calls := calls w @ [Call_sync_file ''gone.txt'']\<rparr>)"
  by (simp add: sync_file_def demo_env_def locked_source_def Let_def)

lemma locked_f:
  "sync_file eng (demo_env locked_source) ''sub/f.txt'' w =
     (Inl (Exn PermissionError ''Permission denied''),
      w\<lparr>calls := calls w @ [Call_sync_file ''sub/f.txt'']\<rparr>)"
  by (simp add: sync_file_def demo_env_def locked_source_def Let_def)

lemma locked_run:
  "run_plan eng (demo_env locked_source) locked_plan token w =
     (Inl (Exn PermissionError ''Permission denied''),
      w\<lparr>calls := calls w @ [Call_sync_file ''gone.txt'', Call_sync_file ''sub/f.txt'']\<rparr>)"
  by (simp add: run_plan_def locked_plan_def locked_gone locked_f)

text \<open>
  C3, at a plan with two file entries, \<^verbatim>\<open>gone.txt\<close> that is no longer in the source
  directory and \<^verbatim>\<open>sub/f.txt\<close> for which \<^verbatim>\<open>source_path.exists()\<close> raises
  \<^verbatim>\<open>PermissionError\<close>: the entry \<^verbatim>\<open>gone.txt\<close> fails (\<^verbatim>\<open>_sync_file\<close> answers \<^verbatim>\<open>False\<close>),
  and then \<^verbatim>\<open>execute\<close> raises at \<^verbatim>\<open>sub/f.txt\<close>: it returns no pair, and the plan files
  are as they were, so no retry plan holds the failed entry.
\<close>

theorem execute_raises_without_retry_plan:
  "load_plan ''/data/execution_plan.json'' locked_world = Inr locked_plan \<and>
   locked_plan = [(''gone.txt'', JString ''file''), (''sub/f.txt'', JString ''file'')] \<and>
   fst (sync_file (SyncEngine ''/d'' False 0) (demo_env locked_source) ''gone.txt'' locked_world)
     = Inr False \<and>
   fst (execute (SyncEngine ''/d'' False 0) (demo_env locked_source)
          (Some ''/data/execution_plan.json'') ''tok'' locked_world)
     = Inl (Exn PermissionError ''Permission denied'') \<and>
   plan_files (snd (execute (SyncEngine ''/d'' False 0) (demo_env locked_source)
          (Some ''/data/execution_plan.json'') ''tok'' locked_world))
     = [''/data/execution_plan.json'' \<mapsto> JObject locked_plan]"
  by (simp add: execute_loaded[OF locked_load] locked_load locked_run locked_gone)
    (simp add: locked_plan_def locked_world_def)


section \<open>What the handlers do to the index\<close>

text \<open>
  With checksums, the download that validates an upload asks for an id that is not in
  \<^verbatim>\<open>id_map\<close> unless it was there before: \<^verbatim>\<open>_sync_file\<close> adds it only afterwards.
\<close>

lemma validate_upload_unknown_id:
  assumes "use_checksum eng" and "device w \<noteq> None" and "id_map w new_id = None"
  shows "validate_upload eng env rel new_id w = (Inl (Exn ValueError ''File ID not found''), w)"
proof -
  have "raw_download (lib env) new_id None w = (Inl (Exn ValueError ''File ID not found''), w)"
    using assms(2,3) by (auto simp: raw_download_def)
  from retry_constant_failure[of "raw_download (lib env) new_id None" w
        "Exn ValueError ''File ID not found''" default_exceptions "jitter env",
        OF this caught_default]
  show ?thesis
    using assms(1) by (simp add: validate_upload_def download_def download_run_def)
qed

lemma sync_file_try_not_True:
  "fst (sync_file_try eng env rel lf pnode pid w) \<noteq> Inr True"
  by (auto simp: sync_file_try_def Let_def sync_IDEntry_def split: prod.splits sum.splits)

text \<open>
  \<^verbatim>\<open>_sync_file\<close> never answers \<^verbatim>\<open>True\<close>: the statement before \<^verbatim>\<open>return True\<close> evaluates
  \<^verbatim>\<open>IDEntry\<close>, a name that sync.py does not import.
\<close>

lemma sync_file_never_succeeds: "fst (sync_file eng env rel w) \<noteq> Inr True"
proof -
  have body: "\<And>lf pnode pid w1 w2. sync_file_try eng env rel lf pnode pid w1 \<noteq> (Inr True, w2)"
    using sync_file_try_not_True[of eng env rel] by (metis fst_conv)
  show ?thesis
    by (auto simp: sync_file_def Let_def body
        split: option.splits prod.splits node.splits sum.splits)
qed

lemma ensure_parts_True:
  "ensure_parts eng env parts cp cid w = (True, w') \<Longrightarrow> w' = w"
proof (induction parts arbitrary: cp cid w)
  case Nil
  then show ?case by simp
next
  case (Cons part parts)
  then show ?case
    by (auto simp: Let_def sync_IDEntry_def split: if_splits option.splits prod.splits sum.splits)
qed

lemma ensure_directory_True:
  "ensure_directory eng env rel w = (True, w') \<Longrightarrow>
     w' = w\<lparr>calls := calls w @ [Call_ensure_directory rel]\<rparr>"
  by (auto simp: ensure_directory_def Let_def split: if_splits dest: ensure_parts_True)

lemma normpath_d_a_b: "normpath ''/d/a/b/'' = ''/d/a/b''"
  by (simp add: normpath_def startswith_def Let_def eval_nat_numeral)

lemma split_a_b: "split_slash ''a/b/'' = [''a'', ''b'', []]"
  by simp

lemma first_call:
  "ensure_directory (SyncEngine ''/d'' False 0) (demo_env readable_source) ''a/b/'' resume_world =
     (False, resume_world\<lparr>device := Some [(''a'', 0)],
               path_map := (path_map resume_world)(''/d/a'' \<mapsto> 2),
               heap := (heap resume_world)(2 := FolderNode 100 []),
               next_ref := 3,
               calls := [Call_ensure_directory ''a/b/'']\<rparr>)"
proof -
  have dv: "device (resume_world\<lparr>calls := [Call_ensure_directory ''a/b/'']\<rparr>) = Some []"
    by (simp add: resume_world_def)
  have pm: "path_map resume_world ''/d/a/b'' = None" "path_map resume_world ''/d/a'' = None"
      "calls resume_world = []"
    by (simp_all add: resume_world_def)
  show ?thesis
    by (simp add: ensure_directory_def resume_engine endswith_slash_def normpath_d_a_b Let_def
        pm domIff demo_mkdir[OF dv] new_object_def sync_IDEntry_def resume_lookup)
qed

lemma second_call:
  "ensure_directory (SyncEngine ''/d'' False 0) (demo_env readable_source) ''a/b/'' twice_first =
     (False, resume_world\<lparr>device := Some [(''a'', 0), (''b'', 100)],
               path_map := (path_map resume_world)(''/d/a'' \<mapsto> 2, ''/d/a/b'' \<mapsto> 3),
               heap := (heap resume_world)(2 := FolderNode 100 [], 3 := FolderNode 101 []),
               next_ref := 4,
               calls := [Call_ensure_directory ''a/b/'', Call_ensure_directory ''a/b/'']\<rparr>)"
proof -
  let ?w = "resume_world\<lparr>device := Some [(''a'', 0)],
               path_map := (path_map resume_world)(''/d/a'' \<mapsto> 2),
               heap := (heap resume_world)(2 := FolderNode 100 []),
               next_ref := 3,
               calls := [Call_ensure_directory ''a/b/'', Call_ensure_directory ''a/b/'']\<rparr>"
  have dv: "device ?w = Some [(''a'', 0)]" by simp
  have pm: "path_map resume_world ''/d/a/b'' = None"
    by (simp_all add: resume_world_def)
  show ?thesis
    unfolding twice_first_def first_call snd_conv
    by (simp add: ensure_directory_def resume_engine endswith_slash_def normpath_d_a_b Let_def
        pm domIff demo_mkdir[OF dv] new_object_def sync_IDEntry_def resume_lookup)
qed

text \<open>
  C6, at \<^verbatim>\<open>a/b/\<close> under a destination where neither \<^verbatim>\<open>a\<close> nor \<^verbatim>\<open>a/b\<close> exists, with
  a device that creates every folder it is asked for: the first call creates \<^verbatim>\<open>a\<close> on
  the device and answers \<^verbatim>\<open>False\<close>; the second call creates \<^verbatim>\<open>b\<close> on the device and
  answers \<^verbatim>\<open>False\<close> again.
\<close>

theorem ensure_directory_second_call_creates:
  "fst (ensure_directory (SyncEngine ''/d'' False 0) (demo_env readable_source) ''a/b/''
          resume_world) = False \<and>
   device resume_world = Some [] \<and>
   device twice_first = Some [(''a'', 0)] \<and>
   fst (ensure_directory (SyncEngine ''/d'' False 0) (demo_env readable_source) ''a/b/''
          twice_first) = False \<and>
   device (snd (ensure_directory (SyncEngine ''/d'' False 0) (demo_env readable_source) ''a/b/''
          twice_first)) = Some [(''a'', 0), (''b'', 100)]"
proof -
  have a: "fst (ensure_directory (SyncEngine ''/d'' False 0) (demo_env readable_source) ''a/b/''
          resume_world) = False"
    by (simp add: first_call)
  have b: "device resume_world = Some []" by (simp add: resume_world_def)
  have c: "device twice_first = Some [(''a'', 0)]" by (simp add: twice_first_def first_call)
  have d: "fst (ensure_directory (SyncEngine ''/d'' False 0) (demo_env readable_source) ''a/b/''
          twice_first) = False"
    by (simp add: second_call)
  have e: "device (snd (ensure_directory (SyncEngine ''/d'' False 0) (demo_env readable_source)
          ''a/b/'' twice_first)) = Some [(''a'', 0), (''b'', 100)]"
    by (simp add: second_call)
  show ?thesis using a b c d e by simp
qed

section \<open>Verifying again after a run\<close>

lemma slashed_fields:
  "dest_path slashed_engine = ''/d/''"
  "use_checksum slashed_engine = False"
  "storage_id slashed_engine = 0"
  by (simp_all add: slashed_engine_def SyncEngine_def startswith_def)

lemma normpath_slashed: "normpath ''/d//sub/'' = ''/d/sub''"
  by (simp add: normpath_def startswith_def Let_def eval_nat_numeral)

lemma sub_scan: "scan_source_directory (src (demo_env sub_source)) = Inr [(''sub/'', ''dir'')]"
  by (simp add: scan_source_directory_def demo_env_def sub_source_def replace_backslash_def
      endswith_slash_def)

lemma slashed_verify:
  "path_map w ''/d/sub'' = None \<Longrightarrow>
   verify slashed_engine (demo_env sub_source) None w =
     (Inr ''/data/execution_plan.json'',
      w\<lparr>plan_files := (plan_files w)(''/data/execution_plan.json'' \<mapsto>
                         JObject [(''sub/'', JString ''dir'')])\<rparr>)"
  by (simp add: verify_def sub_scan slashed_fields normpath_slashed path_exists_in_dest_def
      Let_def DEFAULT_EXECUTION_PLAN_def save_plan_def json_dump_def domIff)
     (simp add: demo_env_def)

lemma slashed_load:
  "plan_files w ''/data/execution_plan.json'' = Some (JObject [(''sub/'', JString ''dir'')]) \<Longrightarrow>
   load_plan ''/data/execution_plan.json'' w = Inr [(''sub/'', JString ''dir'')]"
  by (simp add: load_plan_def json_load_items_def dict_of_members_def)

lemma slashed_execute:
  "plan_files w ''/data/execution_plan.json'' = Some (JObject [(''sub/'', JString ''dir'')]) \<Longrightarrow>
   execute slashed_engine (demo_env sub_source) (Some ''/data/execution_plan.json'') token w =
     (let (ok, w1) = ensure_directory slashed_engine (demo_env sub_source) ''sub/'' w in
      if ok then (Inr (True, None), w1)
      else (Inr (False, Some (''/data/.execution_retry/'' @ token @ ''.json'')),
            w1\<lparr>plan_files := (plan_files w1)(''/data/.execution_retry/'' @ token @ ''.json'' \<mapsto>
                   JObject [(''sub/'', JString ''dir'')])\<rparr>))"
  by (simp add: execute_def find_plan_def slashed_load run_plan_def Let_def save_plan_def
      json_dump_def retry_plan_path_def demo_env_def split: prod.splits)

lemma first_verified_eq:
  "first_verified = fresh_world\<lparr>plan_files :=
      [''/data/execution_plan.json'' \<mapsto> JObject [(''sub/'', JString ''dir'')]]\<rparr>"
proof -
  have "path_map fresh_world ''/d/sub'' = None" by (simp add: fresh_world_def)
  from slashed_verify[OF this] show ?thesis
    by (simp add: first_verified_def) (simp add: fresh_world_def)
qed

lemma first_ensure:
  "ensure_directory slashed_engine (demo_env sub_source) ''sub/'' first_verified =
     (False, first_verified\<lparr>device := Some [(''sub'', 0)],
               path_map := [''/d'' \<mapsto> 0, ''/d//sub'' \<mapsto> 1],
               heap := (heap fresh_world)(1 := FolderNode 100 []),
               next_ref := 2,
               calls := [Call_ensure_directory ''sub/'']\<rparr>)"
proof -
  have dv: "device (first_verified\<lparr>calls := [Call_ensure_directory ''sub/'']\<rparr>) = Some []"
    by (simp add: first_verified_eq fresh_world_def)
  have pm: "path_map first_verified ''/d/sub'' = None" "path_map first_verified ''/d//sub'' = None"
    "calls first_verified = []" "next_ref first_verified = 1"
    "heap first_verified = heap fresh_world"
    "path_map first_verified = [''/d'' \<mapsto> 0]"
    by (simp_all add: first_verified_eq fresh_world_def)
  show ?thesis
    by (simp add: ensure_directory_def slashed_fields endswith_slash_def normpath_slashed Let_def
        pm domIff demo_mkdir[OF dv] new_object_def sync_IDEntry_def)
qed

lemma first_executed_eq:
  "first_executed = fresh_world\<lparr>device := Some [(''sub'', 0)],
               path_map := [''/d'' \<mapsto> 0, ''/d//sub'' \<mapsto> 1],
               heap := (heap fresh_world)(1 := FolderNode 100 []),
               next_ref := 2,
               plan_files :=
                 [''/data/execution_plan.json'' \<mapsto> JObject [(''sub/'', JString ''dir'')],
                  ''/data/.execution_retry/tok1.json'' \<mapsto> JObject [(''sub/'', JString ''dir'')]],
               calls := [Call_ensure_directory ''sub/'']\<rparr>"
proof -
  have "plan_files first_verified ''/data/execution_plan.json''
          = Some (JObject [(''sub/'', JString ''dir'')])"
    by (simp add: first_verified_eq)
  from slashed_execute[OF this, of "''tok1''"] show ?thesis
    by (simp add: first_executed_def first_ensure) (simp add: first_verified_eq)
qed

lemma second_verified_eq:
  "second_verified = first_executed"
proof -
  have "path_map first_executed ''/d/sub'' = None" by (simp add: first_executed_eq)
  from slashed_verify[OF this] show ?thesis
    by (simp add: second_verified_def) (simp add: first_executed_eq fun_upd_idem)
qed

lemma second_ensure:
  "ensure_directory slashed_engine (demo_env sub_source) ''sub/'' first_executed =
     (True, first_executed\<lparr>calls := [Call_ensure_directory ''sub/'', Call_ensure_directory ''sub/'']\<rparr>)"
proof -
  have pm: "path_map first_executed ''/d/sub'' = None"
    "path_map first_executed ''/d//sub'' = Some 1"
    "calls first_executed = [Call_ensure_directory ''sub/'']"
    by (simp_all add: first_executed_eq)
  show ?thesis
    by (simp add: ensure_directory_def slashed_fields endswith_slash_def normpath_slashed Let_def
        pm domIff)
qed

lemma second_executed_eq:
  "second_executed =
     first_executed\<lparr>calls := [Call_ensure_directory ''sub/'', Call_ensure_directory ''sub/'']\<rparr>"
proof -
  have "plan_files first_executed ''/data/execution_plan.json''
          = Some (JObject [(''sub/'', JString ''dir'')])"
    by (simp add: first_executed_eq)
  from slashed_execute[OF this, of "''tok2''"] show ?thesis
    by (simp add: second_executed_def second_verified_eq second_ensure)
qed

text \<open>
  C1, at the destination \<^verbatim>\<open>/d/\<close>, a source directory that holds the directory \<^verbatim>\<open>sub\<close>,
  an index that has \<^verbatim>\<open>/d\<close> only and a device that creates every folder it is asked
  for. The first \<^verbatim>\<open>execute\<close> fails and leaves the new folder in \<^verbatim>\<open>path_map\<close> at
  \<^verbatim>\<open>/d//sub\<close>. The second \<^verbatim>\<open>verify\<close> plans \<^verbatim>\<open>sub/\<close> (it looks for \<^verbatim>\<open>/d/sub\<close>), the
  second \<^verbatim>\<open>execute\<close> returns \<^verbatim>\<open>(True, None)\<close> (it finds \<^verbatim>\<open>/d//sub\<close>) and changes
  neither the index nor the device, and the third \<^verbatim>\<open>verify\<close> plans \<^verbatim>\<open>sub/\<close> again.
\<close>

theorem verify_after_execute_not_empty:
  "fst (execute slashed_engine (demo_env sub_source) (Some ''/data/execution_plan.json'')
          ''tok1'' first_verified) = Inr (False, Some ''/data/.execution_retry/tok1.json'') \<and>
   path_map first_executed = [''/d'' \<mapsto> 0, ''/d//sub'' \<mapsto> 1] \<and>
   fst (verify slashed_engine (demo_env sub_source) None first_executed)
     = Inr ''/data/execution_plan.json'' \<and>
   load_plan ''/data/execution_plan.json'' second_verified = Inr [(''sub/'', JString ''dir'')] \<and>
   fst (execute slashed_engine (demo_env sub_source) (Some ''/data/execution_plan.json'')
          ''tok2'' second_verified) = Inr (True, None) \<and>
   path_map second_executed = path_map second_verified \<and>
   device second_executed = device second_verified \<and>
   fst (verify slashed_engine (demo_env sub_source) None second_executed)
     = Inr ''/data/execution_plan.json'' \<and>
   load_plan ''/data/execution_plan.json'' third_verified = Inr [(''sub/'', JString ''dir'')]"
proof -
  have pf1: "plan_files first_verified ''/data/execution_plan.json''
          = Some (JObject [(''sub/'', JString ''dir'')])"
    by (simp add: first_verified_eq)
  have a: "fst (execute slashed_engine (demo_env sub_source) (Some ''/data/execution_plan.json'')
          ''tok1'' first_verified) = Inr (False, Some ''/data/.execution_retry/tok1.json'')"
    using slashed_execute[OF pf1, of "''tok1''"] by (simp add: first_ensure)
  have b: "path_map first_executed = [''/d'' \<mapsto> 0, ''/d//sub'' \<mapsto> 1]"
    by (simp add: first_executed_eq)
  have n1: "path_map first_executed ''/d/sub'' = None" by (simp add: first_executed_eq)
  have c: "fst (verify slashed_engine (demo_env sub_source) None first_executed)
     = Inr ''/data/execution_plan.json''"
    by (simp add: slashed_verify[OF n1])
  have pf2: "plan_files first_executed ''/data/execution_plan.json''
          = Some (JObject [(''sub/'', JString ''dir'')])"
    by (simp add: first_executed_eq)
  have d: "load_plan ''/data/execution_plan.json'' second_verified = Inr [(''sub/'', JString ''dir'')]"
    unfolding second_verified_eq by (rule slashed_load[OF pf2])
  have e: "fst (execute slashed_engine (demo_env sub_source) (Some ''/data/execution_plan.json'')
          ''tok2'' second_verified) = Inr (True, None)"
    unfolding second_verified_eq using slashed_execute[OF pf2, of "''tok2''"]
    by (simp add: second_ensure)
  have f: "path_map second_executed = path_map second_verified"
      "device second_executed = device second_verified"
    by (simp_all add: second_executed_eq second_verified_eq)
  have n2: "path_map second_executed ''/d/sub'' = None"
    by (simp add: second_executed_eq first_executed_eq)
  have g: "fst (verify slashed_engine (demo_env sub_source) None second_executed)
     = Inr ''/data/execution_plan.json''"
    by (simp add: slashed_verify[OF n2])
  have h: "load_plan ''/data/execution_plan.json'' third_verified = Inr [(''sub/'', JString ''dir'')]"
    unfolding third_verified_def by (rule slashed_load) (simp add: slashed_verify[OF n2])
  show ?thesis using a b c d e f g h by simp
qed

end
